theory Spec2Isabelle
  imports Main
begin

section \<open>Zone file parser: embedding of \<^verbatim>\<open>blockstack_zones/parse_zone_file.py\<close>\<close>

text \<open>
  The module is Python 2 code (\<^verbatim>\<open>filter(...) + ['']\<close> in \<^verbatim>\<open>flatten\<close> and the deletion of
  dictionary entries while iterating \<^verbatim>\<open>record_dict.keys()\<close> only work there), so a string
  is a byte string, modelled as \<^typ>\<open>string\<close>, and the built-ins follow Python 2.
  Exceptions are values of the type \<open>error\<close>; a function that can raise returns
  \<open>error + 'a\<close>.
\<close>

subsection \<open>Python built-ins used by the module\<close>

definition isspace :: "char \<Rightarrow> bool" where
  \<comment> \<open>\<^verbatim>\<open>c.isspace()\<close> on a one-byte string: tab, LF, VT, FF, CR, space.\<close>
  "isspace c = (c \<in> set [CHR 0x09, CHR 0x0A, CHR 0x0B, CHR 0x0C, CHR 0x0D, CHR 0x20])"

definition isdigit :: "char \<Rightarrow> bool" where
  "isdigit c = (c \<in> set ''0123456789'')"

definition startswith :: "string \<Rightarrow> char \<Rightarrow> bool" where
  "startswith s c = (case s of [] \<Rightarrow> False | x # _ \<Rightarrow> x = c)"

definition endswith :: "string \<Rightarrow> char \<Rightarrow> bool" where
  "endswith s c = (s \<noteq> [] \<and> last s = c)"

definition py_lstrip :: "char \<Rightarrow> string \<Rightarrow> string" where
  "py_lstrip ch s = dropWhile (\<lambda>x. x = ch) s"

definition py_rstrip :: "char \<Rightarrow> string \<Rightarrow> string" where
  "py_rstrip ch s = rev (dropWhile (\<lambda>x. x = ch) (rev s))"

definition py_strip :: "char \<Rightarrow> string \<Rightarrow> string" where
  "py_strip ch s = py_rstrip ch (py_lstrip ch s)"

fun py_split :: "char \<Rightarrow> string \<Rightarrow> string list" where
  \<comment> \<open>\<^verbatim>\<open>s.split(sep)\<close> with a one-character separator: never the empty list.\<close>
  "py_split sep [] = [[]]"
| "py_split sep (c # cs) =
     (if c = sep then [] # py_split sep cs
      else (case py_split sep cs of [] \<Rightarrow> [[c]] | w # ws \<Rightarrow> (c # w) # ws))"

fun py_join :: "string \<Rightarrow> string list \<Rightarrow> string" where
  "py_join sep [] = []"
| "py_join sep [x] = x"
| "py_join sep (x # y # ys) = x @ sep @ py_join sep (y # ys)"

definition py_replace :: "char \<Rightarrow> string \<Rightarrow> string \<Rightarrow> string" where
  \<comment> \<open>\<^verbatim>\<open>s.replace(old, new)\<close> with a one-character \<^verbatim>\<open>old\<close>.\<close>
  "py_replace old new s = concat (map (\<lambda>c. if c = old then new else [c]) s)"

definition lower_char :: "char \<Rightarrow> char" where
  "lower_char c =
     (let n = (of_char c :: nat) in if 65 \<le> n \<and> n \<le> 90 then char_of (n + 32) else c)"

definition py_lower :: "string \<Rightarrow> string" where
  "py_lower s = map lower_char s"

definition digit_value :: "char \<Rightarrow> int" where
  "digit_value c = int (of_char c) - 48"

definition py_int :: "string \<Rightarrow> int option" where
  \<comment> \<open>\<^verbatim>\<open>int(s)\<close> of Python 2 on a string: surrounding whitespace, an optional sign,
      whitespace again, then decimal digits; \<open>None\<close> stands for the ValueError.\<close>
  "py_int s =
     (let t = rev (dropWhile isspace (rev (dropWhile isspace s)));
          neg = startswith t (CHR ''-'');
          d = (if startswith t (CHR ''-'') \<or> startswith t (CHR ''+'')
               then dropWhile isspace (tl t) else t)
      in if d \<noteq> [] \<and> list_all isdigit d
         then Some ((if neg then - 1 else 1) * foldl (\<lambda>a c. 10 * a + digit_value c) 0 d)
         else None)"

subsection \<open>Data model\<close>

text \<open>
  Modelled from the spec: \<^verbatim>\<open>exceptions.InvalidLineException\<close> is imported from a module that
  is not part of the sources. It is the per-line parse error of the specification, which
  carries the offending line; it is taken to be an exception class of its own, so that
  \<^verbatim>\<open>except InvalidLineException\<close> catches nothing else. The other constructors are the
  built-in exceptions that the module can raise.
\<close>

datatype error =
    InvalidLineException string
  | AssertionError
  | TypeError
  | IndexError
  | KeyError
  | AttributeError

datatype pyval = PStr string | PInt int | PBool bool | PNone | PEmptyList

text \<open>
  \<open>PEmptyList\<close> is the empty list \<^verbatim>\<open>[]\<close>, the only list that argparse can put into a field of
  this parser (see \<open>get_values\<close> below).
\<close>

text \<open>
  A record dictionary (\<^verbatim>\<open>rr.__dict__\<close>) is an association list in the order in which
  argparse sets the attributes, which is the order of the \<^verbatim>\<open>add_argument\<close> calls. Python 2
  iterates a dictionary in hash order; the only place where the module depends on the
  order is the search for the record type, and there at most one key can qualify.
\<close>

type_synonym record_dict = "(string \<times> pyval) list"

datatype zvalue = Scalar pyval | Records "record_dict list"

type_synonym zonefile = "string \<rightharpoonup> zvalue"

definition dict_del :: "record_dict \<Rightarrow> string \<Rightarrow> record_dict" where
  "dict_del d k = filter (\<lambda>kv. fst kv \<noteq> k) d"

definition dict_set :: "record_dict \<Rightarrow> string \<Rightarrow> pyval \<Rightarrow> record_dict" where
  "dict_set d k v =
     (if k \<in> set (map fst d) then map (\<lambda>kv. if fst kv = k then (k, v) else kv) d
      else d @ [(k, v)])"

definition SUPPORTED_RECORDS :: "string list" where
  \<comment> \<open>Modelled from the spec: \<^verbatim>\<open>configs.SUPPORTED_RECORDS\<close> is imported from a module that
      is not part of the sources; the list is the supported record-type vocabulary of the
      specification, which is also the one in the docstring of the module.\<close>
  "SUPPORTED_RECORDS =
     [''$ORIGIN'', ''$TTL'', ''SOA'', ''NS'', ''A'', ''AAAA'', ''CNAME'', ''MX'', ''PTR'',
      ''TXT'', ''SRV'', ''SPF'', ''URI'']"

subsection \<open>The argparse parser built by \<^verbatim>\<open>make_parser\<close>\<close>

text \<open>
  A subparser is its list of positional arguments: destination, type, and whether it was
  added with \<^verbatim>\<open>nargs='?'\<close>. The parser is the list of subparsers by name.
\<close>

datatype argtype = TStr | TInt

type_synonym subparser = "(string \<times> argtype \<times> bool) list"

type_synonym parser = "(string \<times> subparser) list"

definition make_rr_subparser :: "string \<Rightarrow> (string \<times> argtype) list \<Rightarrow> string \<times> subparser" where
  "make_rr_subparser rec_type args_and_types =
     (rec_type,
      [(''name'', TStr, False), (''ttl'', TInt, True), (''class'', TStr, False),
       (rec_type, TStr, False)]
      @ map (\<lambda>(argname, argtype). (argname, argtype, False)) args_and_types)"

definition make_parser :: parser where
  "make_parser =
     [(''$ORIGIN'', [(''$ORIGIN'', TStr, False)]),
      (''$TTL'', [(''$TTL'', TInt, False)]),
      make_rr_subparser ''SOA''
        [(''mname'', TStr), (''rname'', TStr), (''serial'', TInt), (''refresh'', TInt),
         (''retry'', TInt), (''expire'', TInt), (''minimum'', TInt)],
      make_rr_subparser ''NS'' [(''host'', TStr)],
      make_rr_subparser ''A'' [(''ip'', TStr)],
      make_rr_subparser ''AAAA'' [(''ip'', TStr)],
      make_rr_subparser ''CNAME'' [(''alias'', TStr)],
      make_rr_subparser ''MX'' [(''preference'', TStr), (''host'', TStr)],
      make_rr_subparser ''TXT'' [(''txt'', TStr)],
      make_rr_subparser ''PTR'' [(''host'', TStr)],
      make_rr_subparser ''SRV''
        [(''priority'', TInt), (''weight'', TInt), (''port'', TInt), (''target'', TStr)],
      make_rr_subparser ''SPF'' [(''data'', TStr)],
      make_rr_subparser ''URI'' [(''priority'', TInt), (''weight'', TInt), (''target'', TStr)]]"

text \<open>
  \<^verbatim>\<open>parse_known_args\<close> of the Python 2 standard library (argparse of Python 2.7), for
  this parser. The first string selects the subparser, which gets all the other strings.
  The subparser has the options \<^verbatim>\<open>-h\<close> and \<^verbatim>\<open>--help\<close> only. It reads the strings up to the
  first \<^verbatim>\<open>--\<close> with \<^verbatim>\<open>_parse_optional\<close>: a string is an argument when it is empty, does not
  start with \<^verbatim>\<open>-\<close>, is \<^verbatim>\<open>-\<close> alone, looks like a negative number, or has a space; it is
  taken for an option otherwise. The strings after the first \<^verbatim>\<open>--\<close> are all arguments.

  The arguments fill the positional arguments of the subparser from left to right, an
  optional one taking a string only when one is to spare; strings left over are returned
  as unmatched. The first \<^verbatim>\<open>--\<close> is matched together with the string before it (with the
  string after it when it comes first), and \<^verbatim>\<open>_get_values\<close> strips the first \<^verbatim>\<open>--\<close> from
  the strings of every positional argument. So the first \<^verbatim>\<open>--\<close> disappears, and a later
  \<^verbatim>\<open>--\<close> that is the only string of its argument is stripped to nothing: a required
  argument then gets the empty list, an optional one its default \<^verbatim>\<open>None\<close>.

  Every failure inside argparse (no subparser, unknown subparser, too few arguments, a
  string that is no integer) ends in \<^verbatim>\<open>ZonefileLineParser.error\<close>: that is \<open>Rejected\<close>. A
  string taken for an option is \<open>Rejected\<close> as well: \<^verbatim>\<open>-h\<close>, \<^verbatim>\<open>--help\<close> and their
  abbreviations print the help and exit, and any other one is unknown to the parser and
  either stops it with an error or comes back among the unmatched strings. All of these
  leave the \<^verbatim>\<open>try\<close> block of \<^verbatim>\<open>parse_line\<close> as \<^verbatim>\<open>InvalidLineException(line)\<close>. The same
  holds when the first string is taken for an option or is \<^verbatim>\<open>--\<close>: no subparser has such
  a name.
\<close>

datatype parse_outcome = Matched record_dict "string list" | Rejected

definition negative_number :: "string \<Rightarrow> bool" where
  \<comment> \<open>The pattern \<^verbatim>\<open>^-\d+$|^-\d*\.\d+$\<close>, whose \<^verbatim>\<open>$\<close> also matches before a final newline.\<close>
  "negative_number s =
     (case s of
        [] \<Rightarrow> False
      | c # r \<Rightarrow>
          c = CHR ''-'' \<and>
          (let b = (if r \<noteq> [] \<and> last r = CHR 0x0A then butlast r else r);
               f = dropWhile isdigit b
           in (b \<noteq> [] \<and> list_all isdigit b)
              \<or> (startswith f (CHR ''.'') \<and> tl f \<noteq> [] \<and> list_all isdigit (tl f))))"

definition get_option_tuples :: "string \<Rightarrow> bool" where
  \<comment> \<open>Whether \<^verbatim>\<open>_get_option_tuples\<close> finds \<^verbatim>\<open>-h\<close> or \<^verbatim>\<open>--help\<close> for a string of two characters
      or more that starts with \<^verbatim>\<open>-\<close>.\<close>
  "get_option_tuples option_string =
     (if startswith (tl option_string) (CHR ''-'') then
        (let option_prefix = takeWhile (\<lambda>c. c \<noteq> CHR ''='') option_string
         in take (length option_prefix) ''--help'' = option_prefix)
      else take 2 option_string = ''-h'')"

definition parse_optional :: "string \<Rightarrow> bool" where
  \<comment> \<open>\<^verbatim>\<open>_parse_optional\<close>: True when the string is taken for an option, False when it is an
      argument.\<close>
  "parse_optional arg_string =
     (if arg_string = [] then False
      else if \<not> startswith arg_string (CHR ''-'') then False
      else if arg_string = ''-h'' \<or> arg_string = ''--help'' then True
      else if length arg_string = 1 then False
      else if CHR ''='' \<in> set arg_string
              \<and> (takeWhile (\<lambda>c. c \<noteq> CHR ''='') arg_string = ''-h''
                 \<or> takeWhile (\<lambda>c. c \<noteq> CHR ''='') arg_string = ''--help'') then True
      else if get_option_tuples arg_string then True
      else if negative_number arg_string then False
      else if CHR '' '' \<in> set arg_string then False
      else True)"

datatype arg = Arg string | Dashes

definition later_arg :: "string \<Rightarrow> arg" where
  \<comment> \<open>A string other than the first \<^verbatim>\<open>--\<close>: a \<^verbatim>\<open>--\<close> is stripped to nothing.\<close>
  "later_arg s = (if s = ''--'' then Dashes else Arg s)"

definition arg_string :: "arg \<Rightarrow> string" where
  "arg_string a = (case a of Arg s \<Rightarrow> s | Dashes \<Rightarrow> ''--'')"

definition positional_args :: "string list \<Rightarrow> arg list" where
  \<comment> \<open>The strings as the positional arguments get them: without the first \<^verbatim>\<open>--\<close>; the
      string after a leading \<^verbatim>\<open>--\<close> is matched together with it and is kept as it is.\<close>
  "positional_args rest =
     (if take 1 rest = [''--''] \<and> 2 \<le> length rest
      then Arg (rest ! 1) # map later_arg (drop 2 rest)
      else map later_arg (remove1 ''--'' rest))"

definition get_value :: "argtype \<Rightarrow> string \<Rightarrow> pyval option" where
  "get_value t s = (case t of TStr \<Rightarrow> Some (PStr s) | TInt \<Rightarrow> map_option PInt (py_int s))"

definition get_values :: "argtype \<Rightarrow> bool \<Rightarrow> arg \<Rightarrow> pyval option" where
  \<comment> \<open>\<^verbatim>\<open>_get_values\<close> for one string: None when the conversion fails.\<close>
  "get_values t opt a =
     (case a of
        Arg s \<Rightarrow> get_value t s
      | Dashes \<Rightarrow> Some (if opt then PNone else PEmptyList))"

fun consume_positionals ::
  "subparser \<Rightarrow> arg list \<Rightarrow> nat \<Rightarrow> (record_dict \<times> arg list) option" where
  "consume_positionals [] args spare = Some ([], args)"
| "consume_positionals ((d, t, opt) # ps) args spare =
     (if opt \<and> spare = 0 then
        map_option (\<lambda>(ns, extras). ((d, PNone) # ns, extras)) (consume_positionals ps args spare)
      else
        (case args of
           [] \<Rightarrow> None
         | a # as \<Rightarrow>
             (case get_values t opt a of
                None \<Rightarrow> None
              | Some v \<Rightarrow>
                  map_option (\<lambda>(ns, extras). ((d, v) # ns, extras))
                    (consume_positionals ps as (if opt then spare - 1 else spare)))))"

definition parse_known_args :: "parser \<Rightarrow> string list \<Rightarrow> parse_outcome" where
  "parse_known_args p args =
     (case args of
        [] \<Rightarrow> Rejected
      | name # rest \<Rightarrow>
          (case map_of p name of
             None \<Rightarrow> Rejected
           | Some sp \<Rightarrow>
               if list_ex parse_optional (takeWhile (\<lambda>a. a \<noteq> ''--'') rest) then Rejected
               else
                 (let strings = positional_args rest
                  in case consume_positionals sp strings
                            (length strings - length (filter (\<lambda>(d, t, opt). \<not> opt) sp)) of
                       None \<Rightarrow> Rejected
                     | Some (ns, extras) \<Rightarrow>
                         Matched ns
                           (if length (takeWhile (\<lambda>a. a \<noteq> ''--'') rest)
                                 \<le> length strings - length extras
                            then map arg_string extras
                            else drop (length strings - length extras) rest))))"

subsection \<open>Tokenizer and serializer\<close>

fun tokenize_loop ::
  "string \<Rightarrow> string list \<Rightarrow> bool \<Rightarrow> bool \<Rightarrow> string \<Rightarrow> string list \<times> string" where
  \<comment> \<open>The \<^verbatim>\<open>while\<close> loop of \<^verbatim>\<open>tokenize_line\<close>; the result is \<^verbatim>\<open>ret\<close> and \<^verbatim>\<open>tokbuf\<close> when
      the loop is left.\<close>
  "tokenize_loop [] ret escape quote tokbuf = (ret, tokbuf)"
| "tokenize_loop (c # ll) ret escape quote tokbuf =
     (if isspace c then
        (if \<not> quote \<and> \<not> escape then
           tokenize_loop ll (if length tokbuf > 0 then ret @ [tokbuf] else ret) escape quote []
         else if quote then tokenize_loop ll ret escape quote (tokbuf @ [c])
         else if escape then tokenize_loop ll ret False quote (tokbuf @ [c])
         else tokenize_loop ll ret escape quote [])
      else if c = CHR 0x5C then tokenize_loop ll ret True quote tokbuf
      else if c = CHR 0x22 \<and> \<not> escape then
        (if quote then tokenize_loop ll (ret @ [tokbuf]) escape False []
         else tokenize_loop ll ret escape True tokbuf)
      else if c = CHR '';'' \<and> \<not> escape then (ret @ [tokbuf], [])
      else tokenize_loop ll ret False quote (tokbuf @ [c]))"

definition tokenize_line :: "string \<Rightarrow> string list" where
  "tokenize_line line =
     (case tokenize_loop line [] False False [] of
        (ret, tokbuf) \<Rightarrow>
          if length (py_strip (CHR 0x0A) (py_strip (CHR '' '') tokbuf)) > 0
          then ret @ [tokbuf] else ret)"

definition serialize_token :: "string \<Rightarrow> string" where
  \<comment> \<open>The body of the \<^verbatim>\<open>for\<close> loop of \<^verbatim>\<open>serialize\<close>.\<close>
  "serialize_token tok =
     (let tok1 = (if CHR '' '' \<in> set tok then [CHR 0x22] @ tok @ [CHR 0x22] else tok)
      in if CHR '';'' \<in> set tok1 then py_replace (CHR '';'') [CHR 0x5C, CHR '';''] tok1
         else tok1)"

definition serialize :: "string list \<Rightarrow> string" where
  "serialize tokens = py_join '' '' (map serialize_token tokens)"

subsection \<open>Comment stripper, flattener, name defaulter\<close>

definition remove_comments :: "string \<Rightarrow> string" where
  "remove_comments text =
     py_join [CHR 0x0A]
       (map (\<lambda>line. serialize (tokenize_line line))
            (filter (\<lambda>line. length line \<noteq> 0) (py_split (CHR 0x0A) text)))"

definition flatten_tokens :: "string \<Rightarrow> string list" where
  \<comment> \<open>The first loop of \<^verbatim>\<open>flatten\<close>: the words of every non-empty line, then \<^verbatim>\<open>''\<close>.\<close>
  "flatten_tokens text =
     concat (map (\<lambda>l. filter (\<lambda>x. length x > 0)
                         (py_split (CHR '' '') (py_replace (CHR 0x09) '' '' l)) @ [[]])
                 (filter (\<lambda>l. length l \<noteq> 0) (py_split (CHR 0x0A) text)))"

fun flatten_loop :: "string list \<Rightarrow> bool \<Rightarrow> string list \<Rightarrow> string list \<Rightarrow> string list" where
  \<comment> \<open>The \<^verbatim>\<open>while\<close> loop of \<^verbatim>\<open>flatten\<close> over \<^verbatim>\<open>tokens\<close>, with \<^verbatim>\<open>capturing\<close>, \<^verbatim>\<open>captured\<close>
      and \<^verbatim>\<open>flattened\<close>.\<close>
  "flatten_loop [] capturing captured flattened = flattened"
| "flatten_loop (tok # tokens) capturing captured flattened =
     (if \<not> capturing \<and> length tok = 0 then
        (if length captured > 0
         then flatten_loop tokens capturing [] (flattened @ [py_join '' '' captured])
         else flatten_loop tokens capturing captured flattened)
      else
        (let tok1 = (if startswith tok (CHR ''('') then py_lstrip (CHR ''('') tok else tok);
             capturing1 = (startswith tok (CHR ''('') \<or> capturing);
             closing = (capturing1 \<and> endswith tok1 (CHR '')''))
         in flatten_loop tokens (if closing then False else capturing1)
              (captured @ [if closing then py_rstrip (CHR '')'') tok1 else tok1]) flattened))"

definition flatten :: "string \<Rightarrow> string" where
  "flatten text = py_join [CHR 0x0A] (flatten_loop (flatten_tokens text) False [] [])"

definition add_default_name_line :: "string \<Rightarrow> string list" where
  \<comment> \<open>The body of the \<^verbatim>\<open>for\<close> loop of \<^verbatim>\<open>add_default_name\<close>: what the line adds to \<^verbatim>\<open>ret\<close>.\<close>
  "add_default_name_line line =
     (let tokens = tokenize_line line
      in if length tokens = 0 then []
         else if hd tokens \<in> set SUPPORTED_RECORDS \<and> \<not> startswith (hd tokens) (CHR ''$'')
              then [serialize (''@'' # tokens)]
              else [serialize tokens])"

definition add_default_name :: "string \<Rightarrow> string" where
  "add_default_name text =
     py_join [CHR 0x0A] (concat (map add_default_name_line (py_split (CHR 0x0A) text)))"

subsection \<open>Grammar dispatcher and record accumulator\<close>

definition list_insert :: "nat \<Rightarrow> 'a \<Rightarrow> 'a list \<Rightarrow> 'a list" where
  \<comment> \<open>\<^verbatim>\<open>xs.insert(i, x)\<close>\<close>
  "list_insert i x xs = take i xs @ [x] @ drop i xs"

definition first_isdigit :: "string \<Rightarrow> error + bool" where
  \<comment> \<open>\<^verbatim>\<open>tok[0].isdigit()\<close>: an empty token raises IndexError.\<close>
  "first_isdigit tok = (case tok of [] \<Rightarrow> Inl IndexError | c # _ \<Rightarrow> Inr (isdigit c))"

definition match_record_type :: "string list \<Rightarrow> error + (string list \<times> bool)" where
  \<comment> \<open>Lines 268 to 291 of \<^verbatim>\<open>parse_line\<close>: the rearranged \<^verbatim>\<open>record_token\<close> and
      \<^verbatim>\<open>class_inferred\<close>.\<close>
  "match_record_type record_token =
     (if length record_token \<ge> 2 \<and> record_token ! 1 \<in> set SUPPORTED_RECORDS then
        Inr (list_insert 2 ''IN'' ((record_token ! 1) # record_token), True)
      else if length record_token \<ge> 3 \<and> record_token ! 2 \<in> set SUPPORTED_RECORDS then
        (let rt = (record_token ! 2) # record_token
         in case first_isdigit (rt ! 2) of
              Inl e \<Rightarrow> Inl e
            | Inr d \<Rightarrow> if d then Inr (list_insert 3 ''IN'' rt, True) else Inr (rt, False))
      else if length record_token \<ge> 4 \<and> record_token ! 3 \<in> set SUPPORTED_RECORDS then
        (let rt = (record_token ! 3) # record_token
         in case first_isdigit (rt ! 2) of
              Inl e \<Rightarrow> Inl e
            | Inr d \<Rightarrow> if \<not> d then Inr (rt[2 := rt ! 3, 3 := rt ! 2], False) else Inr (rt, False))
      else Inr (record_token, False))"

fun find_record_type :: "string list \<Rightarrow> record_dict \<Rightarrow> (string \<times> record_dict) option" where
  \<comment> \<open>Lines 303 to 309: the first key that is a supported record name and either a
      directive or equal to its own value; that entry is deleted when it equals its key.\<close>
  "find_record_type [] record_dict = None"
| "find_record_type (key # keys) record_dict =
     (if key \<in> set SUPPORTED_RECORDS
         \<and> (startswith key (CHR ''$'') \<or> map_of record_dict key = Some (PStr key))
      then Some (key, if map_of record_dict key = Some (PStr key)
                      then dict_del record_dict key else record_dict)
      else find_record_type keys record_dict)"

definition clean_fields :: "record_dict \<Rightarrow> record_dict" where
  \<comment> \<open>Lines 314 to 316.\<close>
  "clean_fields record_dict = filter (\<lambda>kv. snd kv \<noteq> PNone) record_dict"

definition ptr_fixup :: "string \<Rightarrow> record_dict \<Rightarrow> zvalue option \<Rightarrow> error + record_dict" where
  \<comment> \<open>Lines 321 and 322; \<open>None\<close> is Python's \<^verbatim>\<open>None\<close>, and \<^verbatim>\<open>+\<close> joins strings only.\<close>
  "ptr_fixup record_type record_dict current_origin =
     (if record_type = ''PTR'' then
        (case map_of record_dict ''name'' of
           None \<Rightarrow> Inl KeyError
         | Some nm \<Rightarrow>
             (case (nm, current_origin) of
                (PStr n, Some (Scalar (PStr origin))) \<Rightarrow>
                  Inr (dict_set record_dict ''fullname'' (PStr (n @ ''.'' @ origin)))
              | _ \<Rightarrow> Inl TypeError))
      else Inr record_dict)"

definition accumulate :: "string \<Rightarrow> record_dict \<Rightarrow> zonefile \<Rightarrow> error + zonefile" where
  \<comment> \<open>Lines 328 to 337. \<^verbatim>\<open>parsed_records\<close> is a \<^verbatim>\<open>defaultdict(list)\<close>: a missing key reads
      as the empty list; a scalar has no \<^verbatim>\<open>append\<close>.\<close>
  "accumulate record_type record_dict parsed_records =
     (if length record_dict > 0 then
        (if startswith record_type (CHR ''$'') then
           (case map_of record_dict record_type of
              None \<Rightarrow> Inl KeyError
            | Some v \<Rightarrow> Inr (parsed_records(py_lower record_type \<mapsto> Scalar v)))
         else
           (case parsed_records (py_lower record_type) of
              None \<Rightarrow> Inr (parsed_records(py_lower record_type \<mapsto> Records [record_dict]))
            | Some (Records rs) \<Rightarrow>
                Inr (parsed_records(py_lower record_type \<mapsto> Records (rs @ [record_dict])))
            | Some (Scalar v) \<Rightarrow> Inl AttributeError))
      else Inr parsed_records)"

definition make_record ::
  "record_dict \<Rightarrow> bool \<Rightarrow> zonefile \<Rightarrow> error + (string \<times> record_dict)" where
  \<comment> \<open>Lines 300 to 326, from \<^verbatim>\<open>rr.__dict__\<close> on: the record type and the record dictionary.\<close>
  "make_record rr class_inferred parsed_records =
     (case find_record_type (map fst rr) rr of
        None \<Rightarrow> Inl AssertionError
      | Some (record_type, rd) \<Rightarrow>
          (let record_dict = clean_fields rd;
               current_origin =
                 (case map_of record_dict ''$ORIGIN'' of
                    Some v \<Rightarrow> Some (Scalar v)
                  | None \<Rightarrow> parsed_records ''$ORIGIN'')
           in case ptr_fixup record_type record_dict current_origin of
                Inl e \<Rightarrow> Inl e
              | Inr rd1 \<Rightarrow>
                  Inr (record_type,
                       if class_inferred then dict_set rd1 ''_missing_class'' (PBool True)
                       else rd1)))"

definition parsed_record ::
  "parser \<Rightarrow> string list \<Rightarrow> zonefile \<Rightarrow> error + (string \<times> record_dict)" where
  \<comment> \<open>Lines 265 to 326: \<^verbatim>\<open>parse_line\<close> up to the statements that change \<^verbatim>\<open>parsed_records\<close>.\<close>
  "parsed_record p record_token parsed_records =
     (let line = py_join '' '' record_token
      in case match_record_type record_token of
           Inl e \<Rightarrow> Inl e
         | Inr (record_token1, class_inferred) \<Rightarrow>
             (case parse_known_args p record_token1 of
                Rejected \<Rightarrow> Inl (InvalidLineException line)
              | Matched rr unmatched \<Rightarrow>
                  if length unmatched = 0 then make_record rr class_inferred parsed_records
                  else Inl (InvalidLineException line)))"

definition parse_line :: "parser \<Rightarrow> string list \<Rightarrow> zonefile \<Rightarrow> error + zonefile" where
  "parse_line p record_token parsed_records =
     (case parsed_record p record_token parsed_records of
        Inl e \<Rightarrow> Inl e
      | Inr (record_type, record_dict) \<Rightarrow> accumulate record_type record_dict parsed_records)"

text \<open>
  \<^verbatim>\<open>parse_line\<close> changes \<^verbatim>\<open>parsed_records\<close> in its last statement only, so when it raises
  the dictionary of the caller is the one passed in: the loop goes on with it.
\<close>

fun parse_lines_loop :: "parser \<Rightarrow> bool \<Rightarrow> string list \<Rightarrow> zonefile \<Rightarrow> error + zonefile" where
  "parse_lines_loop p ignore_invalid [] json_zone_file = Inr json_zone_file"
| "parse_lines_loop p ignore_invalid (record_line # record_lines) json_zone_file =
     (case parse_line p (tokenize_line record_line) json_zone_file of
        Inr z \<Rightarrow> parse_lines_loop p ignore_invalid record_lines z
      | Inl (InvalidLineException l) \<Rightarrow>
          if ignore_invalid then parse_lines_loop p ignore_invalid record_lines json_zone_file
          else Inl (InvalidLineException l)
      | Inl e \<Rightarrow> Inl e)"

definition parse_lines :: "string \<Rightarrow> bool \<Rightarrow> error + zonefile" where
  "parse_lines text ignore_invalid =
     parse_lines_loop make_parser ignore_invalid (py_split (CHR 0x0A) text) Map.empty"

definition parse_zone_file :: "string \<Rightarrow> bool \<Rightarrow> error + zonefile" where
  "parse_zone_file text ignore_invalid =
     parse_lines (add_default_name (flatten (remove_comments text))) ignore_invalid"

subsection \<open>Auxiliary views of the pipeline\<close>

definition record_lines :: "string \<Rightarrow> string list" where
  \<comment> \<open>The lines over which \<^verbatim>\<open>parse_lines\<close> iterates when called from \<^verbatim>\<open>parse_zone_file\<close>.\<close>
  "record_lines text = py_split (CHR 0x0A) (add_default_name (flatten (remove_comments text)))"

fun parse_tokens_loop ::
  "parser \<Rightarrow> bool \<Rightarrow> string list list \<Rightarrow> zonefile \<Rightarrow> error + zonefile" where
  \<comment> \<open>The loop of \<^verbatim>\<open>parse_lines\<close> over lines that are tokenized already.\<close>
  "parse_tokens_loop p ignore_invalid [] json_zone_file = Inr json_zone_file"
| "parse_tokens_loop p ignore_invalid (record_token # rest) json_zone_file =
     (case parse_line p record_token json_zone_file of
        Inr z \<Rightarrow> parse_tokens_loop p ignore_invalid rest z
      | Inl (InvalidLineException l) \<Rightarrow>
          if ignore_invalid then parse_tokens_loop p ignore_invalid rest json_zone_file
          else Inl (InvalidLineException l)
      | Inl e \<Rightarrow> Inl e)"

subsection \<open>Predicates used to state the properties\<close>

definition special :: "char \<Rightarrow> bool" where
  \<comment> \<open>Backslash, double quote, semicolon.\<close>
  "special c = (c = CHR 0x5C \<or> c = CHR 0x22 \<or> c = CHR '';'')"

definition roundtrip_token :: "string \<Rightarrow> bool" where
  \<comment> \<open>A token that \<^verbatim>\<open>serialize\<close> writes so that \<^verbatim>\<open>tokenize_line\<close> reads it back: not empty,
      none of the three special characters, and no whitespace unless it has a space (the
      only whitespace that makes \<^verbatim>\<open>serialize\<close> quote).\<close>
  "roundtrip_token tok =
     (tok \<noteq> [] \<and> \<not> list_ex special tok \<and> (CHR '' '' \<in> set tok \<or> \<not> list_ex isspace tok))"

definition no_backslash :: "string list \<times> string \<Rightarrow> bool" where
  \<comment> \<open>Neither the tokens nor the buffer of a tokenizer state hold a backslash.\<close>
  "no_backslash st = (list_all (\<lambda>t. CHR 0x5C \<notin> set t) (fst st) \<and> CHR 0x5C \<notin> set (snd st))"









subsection \<open>Evaluation at concrete inputs\<close>

lemma py_int_3600: "py_int ''3600'' = Some 3600"
  by code_simp

lemma py_lower_ORIGIN: "py_lower ''$ORIGIN'' = ''$origin''"
  by code_simp

lemma py_lower_A: "py_lower ''A'' = ''a''"
  by code_simp

lemmas dispatch_defs =
  parse_line_def match_record_type_def first_isdigit_def isdigit_def list_insert_def
  parse_known_args_def parse_optional_def positional_args_def later_arg_def arg_string_def
  get_values_def get_value_def make_parser_def make_rr_subparser_def
  parsed_record_def make_record_def SUPPORTED_RECORDS_def dict_del_def dict_set_def
  clean_fields_def ptr_fixup_def accumulate_def startswith_def

lemma parse_line_class_ttl:
  "parse_line make_parser [''www'', ''IN'', ''3600'', ''A'', ''1.2.3.4''] Map.empty
     = Inr [''a'' \<mapsto> Records [[(''name'', PStr ''www''), (''ttl'', PInt 3600),
                                  (''class'', PStr ''IN''), (''ip'', PStr ''1.2.3.4'')]]]"
  by (simp add: dispatch_defs py_int_3600 py_lower_A)

lemma parse_line_ttl_class:
  "parse_line make_parser [''www'', ''3600'', ''IN'', ''A'', ''1.2.3.4''] Map.empty
     = Inr [''a'' \<mapsto> Records [[(''name'', PStr ''www''), (''ttl'', PInt 3600),
                                  (''class'', PStr ''IN''), (''ip'', PStr ''1.2.3.4'')]]]"
  by (simp add: dispatch_defs py_int_3600 py_lower_A)

lemma parse_line_missing_field:
  "parse_line make_parser [''www'', ''3600'', ''IN'', ''A''] parsed_records = Inl AssertionError"
  by (simp add: dispatch_defs py_int_3600 py_lower_A)

lemma parse_line_unknown_shape:
  "parse_line make_parser [''foo'', ''bar''] parsed_records = Inl (InvalidLineException ''foo bar'')"
  by (simp add: dispatch_defs py_int_3600 py_lower_A)

lemma parse_line_www_a:
  "parse_line make_parser [''www'', ''A'', ''1.2.3.4''] Map.empty
     = Inr [''a'' \<mapsto> Records [[(''name'', PStr ''www''), (''class'', PStr ''IN''),
                                  (''ip'', PStr ''1.2.3.4''), (''_missing_class'', PBool True)]]]"
  by (simp add: dispatch_defs py_int_3600 py_lower_A)

lemma parse_line_origin:
  "parse_line make_parser [''$ORIGIN'', ''example.com''] Map.empty
     = Inr [''$origin'' \<mapsto> Scalar (PStr ''example.com'')]"
  by (simp add: dispatch_defs py_lower_ORIGIN)

lemma parse_line_ptr:
  "parse_line make_parser [''1'', ''PTR'', ''host''] [''$origin'' \<mapsto> Scalar (PStr ''example.com'')]
     = Inl TypeError"
  by (simp add: dispatch_defs)

lemma parse_lines_loop_tokens:
  "parse_lines_loop p b ls z = parse_tokens_loop p b (map tokenize_line ls) z"
  by (induction ls arbitrary: z) (auto split: sum.splits error.splits)

lemma parse_zone_file_tokens:
  "parse_zone_file text b = parse_tokens_loop make_parser b (map tokenize_line (record_lines text)) Map.empty"
  by (simp add: parse_zone_file_def parse_lines_def record_lines_def parse_lines_loop_tokens)

lemma tokens_class_ttl:
  "map tokenize_line (record_lines ''www IN 3600 A 1.2.3.4'') = [[''www'', ''IN'', ''3600'', ''A'', ''1.2.3.4'']]"
  by code_simp

lemma tokens_ttl_class:
  "map tokenize_line (record_lines ''www 3600 IN A 1.2.3.4'') = [[''www'', ''3600'', ''IN'', ''A'', ''1.2.3.4'']]"
  by code_simp

lemma tokens_origin_ptr:
  "map tokenize_line (record_lines ''$ORIGIN example.com\<newline>1 PTR host'')
     = [[''$ORIGIN'', ''example.com''], [''1'', ''PTR'', ''host'']]"
  by code_simp

lemma tokens_origin:
  "map tokenize_line (record_lines ''$ORIGIN example.com'') = [[''$ORIGIN'', ''example.com'']]"
  by code_simp

lemma tokens_missing_field:
  "map tokenize_line (record_lines ''www A 1.2.3.4\<newline>www 3600 IN A'')
     = [[''www'', ''A'', ''1.2.3.4''], [''www'', ''3600'', ''IN'', ''A'']]"
  by code_simp

lemma tokens_unknown_shape:
  "map tokenize_line (record_lines ''www A 1.2.3.4\<newline>foo bar'')
     = [[''www'', ''A'', ''1.2.3.4''], [''foo'', ''bar'']]"
  by code_simp

subsection \<open>The tokenizer on runs of ordinary characters\<close>

lemma no_backslash_pair:
  "no_backslash (ret, buf) = (list_all (\<lambda>t. CHR 0x5C \<notin> set t) ret \<and> CHR 0x5C \<notin> set buf)"
  by (simp add: no_backslash_def)

lemma tokenize_loop_no_backslash:
  "no_backslash (ret, tokbuf) \<Longrightarrow> no_backslash (tokenize_loop ll ret escape quote tokbuf)"
proof (induction ll arbitrary: ret escape quote tokbuf)
  case Nil
  then show ?case by simp
next
  case (Cons c ll)
  show ?case
  proof (cases "c = CHR 0x5C")
    case True
    then show ?thesis using Cons.IH Cons.prems by (simp add: isspace_def)
  next
    case False
    then show ?thesis
      using Cons.prems by (simp add: Cons.IH no_backslash_pair)
  qed
qed

lemma scan_plain:
  "\<forall>c \<in> set a. \<not> isspace c \<and> \<not> special c \<Longrightarrow>
   tokenize_loop (a @ r) ret False quote buf = tokenize_loop r ret False quote (buf @ a)"
  by (induction a arbitrary: buf) (simp_all add: special_def)

lemma scan_quoted:
  "\<forall>c \<in> set b. \<not> special c \<Longrightarrow>
   tokenize_loop (b @ r) ret False True buf = tokenize_loop r ret False True (buf @ b)"
  by (induction b arbitrary: buf) (simp_all add: special_def)

lemma dropWhile_absent: "ch \<notin> set s \<Longrightarrow> dropWhile (\<lambda>x. x = ch) s = s"
  by (cases s) auto

lemma py_strip_absent: "ch \<notin> set s \<Longrightarrow> py_strip ch s = s"
  by (simp add: py_strip_def py_lstrip_def py_rstrip_def dropWhile_absent)

lemma roundtrip_token_semicolon: "roundtrip_token t \<Longrightarrow> CHR '';'' \<notin> set t"
  unfolding roundtrip_token_def list_ex_iff special_def by blast

lemma roundtrip_token_special: "roundtrip_token t \<Longrightarrow> \<forall>c \<in> set t. \<not> special c"
  unfolding roundtrip_token_def list_ex_iff by blast

lemma roundtrip_token_plain:
  "roundtrip_token t \<Longrightarrow> CHR '' '' \<notin> set t \<Longrightarrow> \<forall>c \<in> set t. \<not> isspace c \<and> \<not> special c"
  unfolding roundtrip_token_def list_ex_iff by blast

lemma serialize_token_plain:
  "roundtrip_token t \<Longrightarrow> CHR '' '' \<notin> set t \<Longrightarrow> serialize_token t = t"
  using roundtrip_token_semicolon [of t] by (simp add: serialize_token_def)

lemma serialize_token_quoted:
  "roundtrip_token t \<Longrightarrow> CHR '' '' \<in> set t \<Longrightarrow> serialize_token t = CHR 0x22 # t @ [CHR 0x22]"
  using roundtrip_token_semicolon [of t] by (simp add: serialize_token_def)

lemma scan_token_end:
  assumes "roundtrip_token t"
  shows "tokenize_loop (serialize_token t) ret False False [] = (ret @ [t], [])
         \<or> (tokenize_loop (serialize_token t) ret False False [] = (ret, t)
            \<and> CHR '' '' \<notin> set t \<and> CHR 0x0A \<notin> set t)"
proof (cases "CHR '' '' \<in> set t")
  case True
  have q: "\<forall>c \<in> set t. \<not> special c"
    using assms by (rule roundtrip_token_special)
  have "tokenize_loop (CHR 0x22 # t @ [CHR 0x22]) ret False False []
          = tokenize_loop (t @ [CHR 0x22]) ret False True []"
    by (simp add: isspace_def)
  also have "\<dots> = tokenize_loop [CHR 0x22] ret False True t"
    using scan_quoted [OF q, of "[CHR 0x22]" ret "[]"] by simp
  also have "\<dots> = (ret @ [t], [])"
    by (simp add: isspace_def)
  finally show ?thesis
    using serialize_token_quoted [OF assms True] by simp
next
  case False
  then have ws: "\<forall>c \<in> set t. \<not> isspace c \<and> \<not> special c"
    using assms by (simp add: roundtrip_token_plain)
  then have nl: "CHR 0x0A \<notin> set t"
    by (auto simp: isspace_def)
  have "tokenize_loop t ret False False [] = (ret, t)"
    using scan_plain [OF ws, of "[]" ret False "[]"] by simp
  then show ?thesis
    using serialize_token_plain [OF assms False] False nl by simp
qed

lemma scan_token_space:
  assumes "roundtrip_token t"
  shows "tokenize_loop (serialize_token t @ CHR '' '' # r) ret False False []
           = tokenize_loop r (ret @ [t]) False False []"
proof (cases "CHR '' '' \<in> set t")
  case True
  have q: "\<forall>c \<in> set t. \<not> special c"
    using assms by (rule roundtrip_token_special)
  have "tokenize_loop (CHR 0x22 # t @ CHR 0x22 # CHR '' '' # r) ret False False []
          = tokenize_loop (t @ CHR 0x22 # CHR '' '' # r) ret False True []"
    by (simp add: isspace_def)
  also have "\<dots> = tokenize_loop (CHR 0x22 # CHR '' '' # r) ret False True t"
    using scan_quoted [OF q, of "CHR 0x22 # CHR '' '' # r" ret "[]"] by simp
  also have "\<dots> = tokenize_loop r (ret @ [t]) False False []"
    by (simp add: isspace_def)
  finally show ?thesis
    using serialize_token_quoted [OF assms True] by simp
next
  case False
  then have ws: "\<forall>c \<in> set t. \<not> isspace c \<and> \<not> special c"
    using assms by (simp add: roundtrip_token_plain)
  have ne: "t \<noteq> []"
    using assms by (simp add: roundtrip_token_def)
  have "tokenize_loop (t @ CHR '' '' # r) ret False False []
          = tokenize_loop (CHR '' '' # r) ret False False t"
    using scan_plain [OF ws, of "CHR '' '' # r" ret False "[]"] by simp
  also have "\<dots> = tokenize_loop r (ret @ [t]) False False []"
    using ne by (simp add: isspace_def)
  finally show ?thesis
    using serialize_token_plain [OF assms False] by simp
qed

lemma roundtrip_loop:
  "\<forall>t \<in> set tokens. roundtrip_token t \<Longrightarrow>
   (case tokenize_loop (py_join '' '' (map serialize_token tokens)) ret False False [] of
      (r, tokbuf) \<Rightarrow>
        if length (py_strip (CHR 0x0A) (py_strip (CHR '' '') tokbuf)) > 0
        then r @ [tokbuf] else r) = ret @ tokens"
proof (induction tokens arbitrary: ret)
  case Nil
  then show ?case by (simp add: py_strip_def py_lstrip_def py_rstrip_def)
next
  case (Cons t ts)
  then have t: "roundtrip_token t" and ts: "\<forall>t \<in> set ts. roundtrip_token t"
    by simp_all
  show ?case
  proof (cases ts)
    case Nil
    have ne: "t \<noteq> []" using t by (simp add: roundtrip_token_def)
    from scan_token_end [OF t, of ret] show ?thesis
    proof
      assume "tokenize_loop (serialize_token t) ret False False [] = (ret @ [t], [])"
      then show ?thesis using Nil by (simp add: py_strip_def py_lstrip_def py_rstrip_def)
    next
      assume "tokenize_loop (serialize_token t) ret False False [] = (ret, t)
                \<and> CHR '' '' \<notin> set t \<and> CHR 0x0A \<notin> set t"
      then show ?thesis using Nil ne by (simp add: py_strip_absent)
    qed
  next
    case (Cons u us)
    have "py_join '' '' (map serialize_token (t # ts))
            = serialize_token t @ CHR '' '' # py_join '' '' (map serialize_token ts)"
      using Cons by simp
    then show ?thesis
      using Cons.IH [OF ts, of "ret @ [t]"] scan_token_space [OF t] by simp
  qed
qed

subsection \<open>One line of the grammar dispatcher, and the loop over the lines\<close>












lemma supported_no_digit: "list_all (\<lambda>s. s \<noteq> [] \<and> \<not> isdigit (hd s)) SUPPORTED_RECORDS"
  by code_simp

lemma digit_not_supported: "isdigit (hd s) \<Longrightarrow> s \<notin> set SUPPORTED_RECORDS"
  using supported_no_digit unfolding list_all_iff by blast








lemma accumulate_not_invalid: "accumulate rt rd zf \<noteq> Inl (InvalidLineException m)"
  by (auto simp: accumulate_def split: if_splits option.splits zvalue.splits)











































lemma match_record_type_ttl_first:
  assumes "typ \<in> set SUPPORTED_RECORDS" and "cls \<notin> set SUPPORTED_RECORDS"
    and "ttl \<noteq> []" and "isdigit (hd ttl)"
  shows "match_record_type (name # ttl # cls # typ # rdata)
           = Inr (typ # name # ttl # cls # typ # rdata, False)"
proof -
  have "ttl \<notin> set SUPPORTED_RECORDS"
    using assms(4) by (rule digit_not_supported)
  moreover have "first_isdigit ttl = Inr True"
    using assms(3,4) by (cases ttl) (simp_all add: first_isdigit_def)
  ultimately show ?thesis
    using assms(1,2) by (simp add: match_record_type_def)
qed

lemma match_record_type_class_first:
  assumes "typ \<in> set SUPPORTED_RECORDS" and "cls \<notin> set SUPPORTED_RECORDS"
    and "isdigit (hd ttl)" and "cls \<noteq> []" and "\<not> isdigit (hd cls)"
  shows "match_record_type (name # cls # ttl # typ # rdata)
           = Inr (typ # name # ttl # cls # typ # rdata, False)"
proof -
  have "ttl \<notin> set SUPPORTED_RECORDS"
    using assms(3) by (rule digit_not_supported)
  moreover have "first_isdigit cls = Inr False"
    using assms(4,5) by (cases cls) (simp_all add: first_isdigit_def)
  ultimately show ?thesis
    using assms(1,2) by (simp add: match_record_type_def)
qed

subsection \<open>Further evaluations, and lines that differ only in the order of TTL and class\<close>

lemma py_int_IN: "py_int ''IN'' = None"
  by code_simp






lemma tokens_name_a:
  "map tokenize_line (record_lines ''A 3600 IN A 1.2.3.4'')
     = [[''@'', ''A'', ''3600'', ''IN'', ''A'', ''1.2.3.4'']]"
  by code_simp

lemma parse_line_name_a:
  "parse_line make_parser [''A'', ''3600'', ''IN'', ''A'', ''1.2.3.4''] Map.empty
     = Inr [''a'' \<mapsto> Records [[(''name'', PStr ''A''), (''ttl'', PInt 3600),
                                  (''class'', PStr ''IN''), (''ip'', PStr ''1.2.3.4'')]]]"
  by (simp add: dispatch_defs py_int_3600 py_lower_A)

lemma parse_line_at_a:
  "parse_line make_parser [''@'', ''A'', ''3600'', ''IN'', ''A'', ''1.2.3.4''] parsed_records
     = Inl (InvalidLineException ''@ A 3600 IN A 1.2.3.4'')"
  by (simp add: dispatch_defs py_int_IN)

lemma make_record_not_invalid: "make_record rr ci z \<noteq> Inl (InvalidLineException m)"
  by (auto simp: make_record_def ptr_fixup_def Let_def
           split: option.splits sum.splits if_splits pyval.splits zvalue.splits)

lemma other_error:
  "r \<noteq> Inl (InvalidLineException l) \<Longrightarrow> (\<And>l'. r \<noteq> Inl (InvalidLineException l')) \<Longrightarrow>
   (case r of Inl (InvalidLineException l') \<Rightarrow> Inl (InvalidLineException m) | r' \<Rightarrow> r') = r"
  by (auto split: sum.splits error.splits)

lemma parse_line_same_tokens:
  assumes "match_record_type t1 = Inr x" and "match_record_type t2 = Inr x"
  shows "parse_line p t1 z =
           (case parse_line p t2 z of
              Inl (InvalidLineException l) \<Rightarrow> Inl (InvalidLineException (py_join '' '' t1))
            | r \<Rightarrow> r)"
proof -
  obtain rt ci where x: "x = (rt, ci)" by (cases x)
  show ?thesis
  proof (cases "parse_known_args p rt")
    case Rejected
    then show ?thesis by (simp add: parse_line_def parsed_record_def assms x)
  next
    case (Matched rr um)
    show ?thesis
    proof (cases "um = []")
      case False
      with Matched show ?thesis by (simp add: parse_line_def parsed_record_def assms x)
    next
      case True
      have p1: "parsed_record p t1 z = make_record rr ci z"
        by (simp add: parsed_record_def assms x Matched True)
      have p2: "parsed_record p t2 z = make_record rr ci z"
        by (simp add: parsed_record_def assms x Matched True)
      show ?thesis
      proof (cases "make_record rr ci z")
        case (Inl e)
        with make_record_not_invalid [of rr ci z] show ?thesis
          by (cases e) (auto simp: parse_line_def p1 p2)
      next
        case (Inr y)
        obtain r d where y: "y = (r, d)" by (cases y)
        show ?thesis
        proof (cases "accumulate r d z")
          case (Inl e)
          with accumulate_not_invalid [of r d z] Inr y show ?thesis
            by (cases e) (auto simp: parse_line_def p1 p2)
        next
          case r: (Inr z')
          with Inr y show ?thesis
            by (simp add: parse_line_def p1 p2)
        qed
      qed
    qed
  qed
qed





section \<open>The claims\<close>

text \<open>
  Claim C8. \<^verbatim>\<open>tokenize_line\<close> splits \<^verbatim>\<open>A B\<close> into the tokens \<^verbatim>\<open>A\<close> and \<^verbatim>\<open>B\<close>; it keeps a
  quoted \<^verbatim>\<open>B C\<close> as one token; a backslash before the space makes \<^verbatim>\<open>A B\<close> one token; and in
  \<^verbatim>\<open>A ; comment\<close> the semicolon ends the scan and flushes the empty buffer, so that the
  result is \<^verbatim>\<open>A\<close> followed by the empty token.
\<close>

theorem tokenize_line_examples:
  "tokenize_line ''A B'' = [''A'', ''B'']
   \<and> tokenize_line (''A '' @ [CHR 0x22] @ ''B C'' @ [CHR 0x22]) = [''A'', ''B C'']
   \<and> tokenize_line (''A'' @ [CHR 0x5C] @ '' B'') = [''A B'']
   \<and> tokenize_line ''A ; comment'' = [''A'', []]"
  by code_simp

text \<open>
  Claim C4. When the fourth token of a line is a record type, the second and third are the
  TTL and the class in either order: with a TTL that starts with a digit and a class that
  does not (and is no record type itself), both orders are rearranged to the same token
  list, TTL before class, so that \<^verbatim>\<open>parse_line\<close> gives the same result from any accumulator
  and with any parser; only the text of the line that an \<^verbatim>\<open>InvalidLineException\<close> carries
  differs. The lines \<^verbatim>\<open>www IN 3600 A 1.2.3.4\<close> and \<^verbatim>\<open>www 3600 IN A 1.2.3.4\<close> both give one
  \<^verbatim>\<open>a\<close> record with \<^verbatim>\<open>ttl\<close> 3600 and \<^verbatim>\<open>class\<close> \<^verbatim>\<open>IN\<close>.
\<close>

theorem ttl_class_either_order:
  assumes "typ \<in> set SUPPORTED_RECORDS" and "cls \<notin> set SUPPORTED_RECORDS"
    and "ttl \<noteq> []" and "isdigit (hd ttl)" and "cls \<noteq> []" and "\<not> isdigit (hd cls)"
  shows "match_record_type (name # cls # ttl # typ # rdata)
           = Inr (typ # name # ttl # cls # typ # rdata, False)
       \<and> match_record_type (name # ttl # cls # typ # rdata)
           = Inr (typ # name # ttl # cls # typ # rdata, False)
       \<and> parse_line p (name # cls # ttl # typ # rdata) parsed_records
           = (case parse_line p (name # ttl # cls # typ # rdata) parsed_records of
                Inl (InvalidLineException l) \<Rightarrow>
                  Inl (InvalidLineException (py_join '' '' (name # cls # ttl # typ # rdata)))
              | r \<Rightarrow> r)
       \<and> parse_zone_file ''www IN 3600 A 1.2.3.4'' ignore_invalid
           = Inr [''a'' \<mapsto> Records [[(''name'', PStr ''www''), (''ttl'', PInt 3600),
                                        (''class'', PStr ''IN''), (''ip'', PStr ''1.2.3.4'')]]]
       \<and> parse_zone_file ''www 3600 IN A 1.2.3.4'' ignore_invalid
           = Inr [''a'' \<mapsto> Records [[(''name'', PStr ''www''), (''ttl'', PInt 3600),
                                        (''class'', PStr ''IN''), (''ip'', PStr ''1.2.3.4'')]]]"
proof -
  note c = match_record_type_class_first [OF assms(1,2,4,5,6), of name rdata]
  note t = match_record_type_ttl_first [OF assms(1,2,3,4), of name rdata]
  note p = parse_line_same_tokens [OF c t, of p parsed_records]
  have z1: "parse_zone_file ''www IN 3600 A 1.2.3.4'' ignore_invalid
           = Inr [''a'' \<mapsto> Records [[(''name'', PStr ''www''), (''ttl'', PInt 3600),
                                        (''class'', PStr ''IN''), (''ip'', PStr ''1.2.3.4'')]]]"
    by (simp add: parse_zone_file_tokens tokens_class_ttl parse_line_class_ttl)
  have z2: "parse_zone_file ''www 3600 IN A 1.2.3.4'' ignore_invalid
           = Inr [''a'' \<mapsto> Records [[(''name'', PStr ''www''), (''ttl'', PInt 3600),
                                        (''class'', PStr ''IN''), (''ip'', PStr ''1.2.3.4'')]]]"
    by (simp add: parse_zone_file_tokens tokens_ttl_class parse_line_ttl_class)
  from c t p z1 z2 show ?thesis by blast
qed

text \<open>The tokens of \<^verbatim>\<open>www IN 3600 A 1.2.3.4\<close>, with the parser of \<^verbatim>\<open>make_parser\<close> and an empty accumulator.\<close>

theorem ttl_class_either_order_witness:
  "''A'' \<in> set SUPPORTED_RECORDS \<and> ''IN'' \<notin> set SUPPORTED_RECORDS
   \<and> isdigit (hd ''3600'') \<and> \<not> isdigit (hd ''IN'')
   \<and> tokenize_line ''www IN 3600 A 1.2.3.4'' = [''www'', ''IN'', ''3600'', ''A'', ''1.2.3.4'']
   \<and> parse_line make_parser [''www'', ''IN'', ''3600'', ''A'', ''1.2.3.4''] Map.empty
       = Inr [''a'' \<mapsto> Records [[(''name'', PStr ''www''), (''ttl'', PInt 3600),
                                    (''class'', PStr ''IN''), (''ip'', PStr ''1.2.3.4'')]]]"
proof -
  have h: "''A'' \<in> set SUPPORTED_RECORDS" "''IN'' \<notin> set SUPPORTED_RECORDS"
    "''3600'' \<noteq> []" "isdigit (hd ''3600'')" "''IN'' \<noteq> []" "\<not> isdigit (hd ''IN'')"
    by (simp_all add: SUPPORTED_RECORDS_def isdigit_def)
  have t: "tokenize_line ''www IN 3600 A 1.2.3.4'' = [''www'', ''IN'', ''3600'', ''A'', ''1.2.3.4'']"
    by code_simp
  from ttl_class_either_order [OF h, of "''www''" "[''1.2.3.4'']" make_parser Map.empty]
  have "parse_line make_parser [''www'', ''IN'', ''3600'', ''A'', ''1.2.3.4''] Map.empty
       = Inr [''a'' \<mapsto> Records [[(''name'', PStr ''www''), (''ttl'', PInt 3600),
                                    (''class'', PStr ''IN''), (''ip'', PStr ''1.2.3.4'')]]]"
    by (simp add: parse_line_ttl_class)
  with h t show ?thesis by blast
qed

text \<open>
  Claim C6, as stated: \<^verbatim>\<open>flatten\<close> turns the two lines \<^verbatim>\<open>NS ( host1\<close> and \<^verbatim>\<open>host2 )\<close> into the
  line \<^verbatim>\<open>NS host1 host2\<close>. It does not: the two parenthesis tokens, stripped to empty
  strings, and the end-of-line marker inside the group are captured too and joined with
  spaces.
\<close>

theorem flatten_group_counterexample:
  "flatten ''NS ( host1\<newline>host2 )'' \<noteq> ''NS host1 host2''"
  by code_simp

text \<open>
  Claim C6, amended. \<^verbatim>\<open>flatten\<close> turns the two lines into the single line
  \<^verbatim>\<open>NS  host1  host2 \<close> (two spaces after \<^verbatim>\<open>NS\<close> and after \<^verbatim>\<open>host1\<close>, one after \<^verbatim>\<open>host2\<close>):
  the parentheses and the line break are gone, and the tokens of the line are \<^verbatim>\<open>NS\<close>,
  \<^verbatim>\<open>host1\<close>, \<^verbatim>\<open>host2\<close> in their original order.
\<close>

theorem flatten_group_example:
  "flatten ''NS ( host1\<newline>host2 )'' = ''NS  host1  host2 ''
   \<and> tokenize_line (flatten ''NS ( host1\<newline>host2 )'') = [''NS'', ''host1'', ''host2'']"
  by code_simp

text \<open>
  Claim C3. \<^verbatim>\<open>add_default_name\<close> should leave \<^verbatim>\<open>A 3600 IN A 1.2.3.4\<close> unchanged, since its name
  \<^verbatim>\<open>A\<close> is present, and put \<^verbatim>\<open>@\<close> in front only when the name was omitted, as in
  \<^verbatim>\<open>A 1.2.3.4\<close>. The code tests only whether the first token is a record type, so it puts
  \<^verbatim>\<open>@\<close> in front of the name \<^verbatim>\<open>A\<close> too. \<^verbatim>\<open>parse_line\<close> reads the tokens of the line as they
  are into a record named \<^verbatim>\<open>A\<close>; after the defaulter the line no longer parses: strict mode
  raises on the changed line, lenient mode drops the record.
\<close>

theorem add_default_name_shadows_name:
  "add_default_name ''A 1.2.3.4'' = ''@ A 1.2.3.4''
   \<and> add_default_name ''A 3600 IN A 1.2.3.4'' = ''@ A 3600 IN A 1.2.3.4''
   \<and> parse_line make_parser (tokenize_line ''A 3600 IN A 1.2.3.4'') Map.empty
       = Inr [''a'' \<mapsto> Records [[(''name'', PStr ''A''), (''ttl'', PInt 3600),
                                    (''class'', PStr ''IN''), (''ip'', PStr ''1.2.3.4'')]]]
   \<and> parse_zone_file ''A 3600 IN A 1.2.3.4'' False
       = Inl (InvalidLineException ''@ A 3600 IN A 1.2.3.4'')
   \<and> parse_zone_file ''A 3600 IN A 1.2.3.4'' True = Inr Map.empty"
proof -
  have a1: "add_default_name ''A 1.2.3.4'' = ''@ A 1.2.3.4''"
    by code_simp
  have a2: "add_default_name ''A 3600 IN A 1.2.3.4'' = ''@ A 3600 IN A 1.2.3.4''"
    by code_simp
  have t: "tokenize_line ''A 3600 IN A 1.2.3.4'' = [''A'', ''3600'', ''IN'', ''A'', ''1.2.3.4'']"
    by code_simp
  have p: "parse_line make_parser (tokenize_line ''A 3600 IN A 1.2.3.4'') Map.empty
       = Inr [''a'' \<mapsto> Records [[(''name'', PStr ''A''), (''ttl'', PInt 3600),
                                    (''class'', PStr ''IN''), (''ip'', PStr ''1.2.3.4'')]]]"
    unfolding t by (rule parse_line_name_a)
  have s: "parse_zone_file ''A 3600 IN A 1.2.3.4'' False
       = Inl (InvalidLineException ''@ A 3600 IN A 1.2.3.4'')"
    by (simp add: parse_zone_file_tokens tokens_name_a parse_line_at_a)
  have l: "parse_zone_file ''A 3600 IN A 1.2.3.4'' True = Inr Map.empty"
    by (simp add: parse_zone_file_tokens tokens_name_a parse_line_at_a)
  from a1 a2 p s l show ?thesis by blast
qed

text \<open>
  Claim C1. After \<^verbatim>\<open>$ORIGIN example.com\<close> the line \<^verbatim>\<open>1 PTR host\<close> should give a record with
  \<^verbatim>\<open>fullname\<close> \<^verbatim>\<open>1.example.com\<close>. The code stores the origin under the key \<^verbatim>\<open>$origin\<close> and
  looks it up under \<^verbatim>\<open>$ORIGIN\<close>, so the origin it finds is \<^verbatim>\<open>None\<close> and the concatenation
  raises TypeError, in strict and in lenient mode.
\<close>

theorem ptr_origin_lookup_fails:
  "parse_zone_file ''$ORIGIN example.com'' ignore_invalid
     = Inr [''$origin'' \<mapsto> Scalar (PStr ''example.com'')]
   \<and> parse_zone_file ''$ORIGIN example.com\<newline>1 PTR host'' ignore_invalid
     = Inl TypeError"
  by (simp add: parse_zone_file_tokens tokens_origin tokens_origin_ptr parse_line_origin
        parse_line_ptr)

text \<open>
  Claim C5. With one malformed line among valid ones, lenient mode should skip the line.
  The line \<^verbatim>\<open>www 3600 IN A\<close>, which lacks its address, passes argparse with the fields
  shifted, fails the assertion on the record type, and the AssertionError leaves
  \<^verbatim>\<open>parse_lines\<close> in strict and in lenient mode. A line that argparse rejects, such as
  \<^verbatim>\<open>foo bar\<close>, is skipped in lenient mode and raised with its text in strict mode.
\<close>

theorem lenient_assertion_escapes:
  "parse_zone_file ''www A 1.2.3.4\<newline>www 3600 IN A'' ignore_invalid = Inl AssertionError
   \<and> parse_zone_file ''www A 1.2.3.4\<newline>foo bar'' True
     = Inr [''a'' \<mapsto> Records [[(''name'', PStr ''www''), (''class'', PStr ''IN''),
                                  (''ip'', PStr ''1.2.3.4''), (''_missing_class'', PBool True)]]]
   \<and> parse_zone_file ''www A 1.2.3.4\<newline>foo bar'' False
     = Inl (InvalidLineException ''foo bar'')"
  by (simp add: parse_zone_file_tokens tokens_missing_field tokens_unknown_shape
        parse_line_www_a parse_line_missing_field parse_line_unknown_shape)

text \<open>
  Claim C2, as stated: for tokens without double quote, backslash and semicolon,
  tokenizing the serialized tokens gives the tokens back. It fails for the empty token,
  which \<^verbatim>\<open>serialize\<close> writes as nothing, and for a token whose only whitespace is a tab,
  which \<^verbatim>\<open>serialize\<close> does not quote.
\<close>

theorem serialize_tokenize_roundtrip_counterexample:
  "\<not> list_ex special [] \<and> tokenize_line (serialize [[]]) \<noteq> [[]]
   \<and> \<not> list_ex special [CHR ''a'', CHR 0x09, CHR ''b'']
   \<and> tokenize_line (serialize [[CHR ''a'', CHR 0x09, CHR ''b'']]) \<noteq> [[CHR ''a'', CHR 0x09, CHR ''b'']]"
  by code_simp

text \<open>
  Claim C2, amended. For every token sequence in which each token is not empty, has no
  double quote, backslash or semicolon, and has no whitespace character unless it has a
  space, \<^verbatim>\<open>tokenize_line (serialize tokens)\<close> is \<^verbatim>\<open>tokens\<close>.
\<close>

theorem serialize_tokenize_roundtrip:
  assumes "\<forall>tok \<in> set tokens. roundtrip_token tok"
  shows "tokenize_line (serialize tokens) = tokens"
  using roundtrip_loop [OF assms, of "[]"] by (simp add: tokenize_line_def serialize_def)

text \<open>The round trip at the tokens \<^verbatim>\<open>a b\<close> and \<^verbatim>\<open>c\<close>.\<close>

theorem serialize_tokenize_roundtrip_witness:
  "roundtrip_token ''a b'' \<and> roundtrip_token ''c''
   \<and> tokenize_line (serialize [''a b'', ''c'']) = [''a b'', ''c'']"
proof -
  have r: "roundtrip_token ''a b''" "roundtrip_token ''c''"
    by (simp_all add: roundtrip_token_def special_def isspace_def)
  then have "\<forall>tok \<in> set [''a b'', ''c'']. roundtrip_token tok" by simp
  from serialize_tokenize_roundtrip [OF this] r show ?thesis by simp
qed

text \<open>
  Claim C7, as stated: in escaped state a backslash is put into the token buffer and the
  escape flag is cleared, so that two backslashes in a row give a token with a backslash.
  In \<^verbatim>\<open>a\<close>, backslash, backslash, space, \<^verbatim>\<open>b\<close> the second backslash is dropped and leaves the
  flag set: the space is escaped, and the only token is \<^verbatim>\<open>a b\<close>.
\<close>

theorem double_backslash_counterexample:
  "tokenize_line [CHR ''a'', CHR 0x5C, CHR 0x5C, CHR '' '', CHR ''b''] = [''a b'']
   \<and> CHR 0x5C \<notin> set (concat (tokenize_line [CHR ''a'', CHR 0x5C, CHR 0x5C, CHR '' '', CHR ''b'']))"
  by code_simp

text \<open>
  Claim C7, amended. A backslash sets the escape flag and is consumed in every state of
  the scanner, the escaped state included; no token that \<^verbatim>\<open>tokenize_line\<close> returns holds
  a backslash.
\<close>

theorem backslash_always_consumed:
  "tokenize_loop (CHR 0x5C # ll) ret escape quote tokbuf = tokenize_loop ll ret True quote tokbuf
   \<and> (\<forall>tok \<in> set (tokenize_line line). CHR 0x5C \<notin> set tok)"
proof
  show "tokenize_loop (CHR 0x5C # ll) ret escape quote tokbuf = tokenize_loop ll ret True quote tokbuf"
    by (simp add: isspace_def)
next
  have "no_backslash (tokenize_loop line [] False False [])"
    by (rule tokenize_loop_no_backslash) (simp add: no_backslash_pair)
  then show "\<forall>tok \<in> set (tokenize_line line). CHR 0x5C \<notin> set tok"
    by (cases "tokenize_loop line [] False False []")
       (auto simp: tokenize_line_def no_backslash_pair list_all_iff)
qed

text \<open>The token of the line \<^verbatim>\<open>a\<close>, backslash, backslash, space, \<^verbatim>\<open>b\<close> has no backslash.\<close>

theorem backslash_always_consumed_witness:
  "''a b'' \<in> set (tokenize_line [CHR ''a'', CHR 0x5C, CHR 0x5C, CHR '' '', CHR ''b''])
   \<and> CHR 0x5C \<notin> set ''a b''"
proof -
  have t: "tokenize_line [CHR ''a'', CHR 0x5C, CHR 0x5C, CHR '' '', CHR ''b''] = [''a b'']"
    by code_simp
  from backslash_always_consumed [of "[]" "[]" False False "[]" "[CHR ''a'', CHR 0x5C, CHR 0x5C, CHR '' '', CHR ''b'']"]
  have "\<forall>tok \<in> set (tokenize_line [CHR ''a'', CHR 0x5C, CHR 0x5C, CHR '' '', CHR ''b'']). CHR 0x5C \<notin> set tok"
    by blast
  with t show ?thesis by simp
qed

text \<open>
  Claim C10. An unescaped semicolon ends the scan inside a quoted region too: for a line
  made of a word \<^verbatim>\<open>a\<close>, a space, a double quote, a text \<^verbatim>\<open>b\<close> without special characters, a
  semicolon and anything after it, the tokens are \<^verbatim>\<open>a\<close> and \<^verbatim>\<open>b\<close>; what follows the semicolon
  is dropped.
\<close>

theorem semicolon_truncates_inside_quotes:
  assumes "a \<noteq> []" and "\<forall>c \<in> set a. \<not> isspace c \<and> \<not> special c" and "\<forall>c \<in> set b. \<not> special c"
  shows "tokenize_line (a @ '' '' @ [CHR 0x22] @ b @ '';'' @ rest) = [a, b]"
proof -
  have "tokenize_loop (a @ '' '' @ [CHR 0x22] @ b @ '';'' @ rest) [] False False []
          = tokenize_loop ('' '' @ [CHR 0x22] @ b @ '';'' @ rest) [] False False a"
    using scan_plain [OF assms(2), of _ "[]" False "[]"] by simp
  also have "\<dots> = tokenize_loop (b @ '';'' @ rest) [a] False True []"
    using assms(1) by (simp add: isspace_def)
  also have "\<dots> = tokenize_loop ('';'' @ rest) [a] False True b"
    using scan_quoted [OF assms(3), of _ "[a]" "[]"] by simp
  also have "\<dots> = ([a, b], [])"
    by (simp add: isspace_def)
  finally show ?thesis
    by (simp add: tokenize_line_def py_strip_def py_lstrip_def py_rstrip_def)
qed

text \<open>The line \<^verbatim>\<open>a "b;c"\<close> of the claim.\<close>

theorem semicolon_truncates_inside_quotes_witness:
  "''a'' \<noteq> [] \<and> tokenize_line (''a '' @ [CHR 0x22] @ ''b;c'' @ [CHR 0x22]) = [''a'', ''b'']"
proof -
  have "tokenize_line (''a'' @ '' '' @ [CHR 0x22] @ ''b'' @ '';'' @ (''c'' @ [CHR 0x22])) = [''a'', ''b'']"
    by (rule semicolon_truncates_inside_quotes) (simp_all add: isspace_def special_def)
  then show ?thesis by simp
qed



end
